theory Spec2Isabelle
  imports Main "HOL-Library.Word" "HOL-Library.AList"
begin

section \<open>Win32 types and constants used by ModuleList.cpp\<close>

type_synonym DWORD = "32 word"
type_synonym LONGLONG = "64 word"
type_synonym wchar_t = "16 word"
type_synonym wstring = "wchar_t list"

text \<open>
  A \<open>HANDLE\<close> is an opaque pointer-sized value; the program only stores it, compares it
  with the sentinel \<open>INVALID_HANDLE_VALUE\<close> and passes it back to the system.
\<close>

datatype HANDLE = INVALID_HANDLE_VALUE | Handle nat

definition ERROR_INVALID_HANDLE :: DWORD where
  "ERROR_INVALID_HANDLE = 6"

definition ERROR_NO_MORE_FILES :: DWORD where
  "ERROR_NO_MORE_FILES = 18"

definition TH32CS_SNAPMODULE :: DWORD where
  "TH32CS_SNAPMODULE = 8"

definition STIF_DEFAULT :: DWORD where
  "STIF_DEFAULT = 0"

text \<open>A wide string literal \<open>L"..."\<close>: every character widened to a \<open>wchar_t\<close>.\<close>

definition L :: "string \<Rightarrow> wstring" where
  "L s = map (\<lambda>c. of_nat (of_char c)) s"

text \<open>
  \<open>MODULEENTRY32\<close>, restricted to the two members the program reads. \<open>szModule\<close> is the
  character buffer; the module's name is the C string it holds, that is the characters
  before the first NUL.
\<close>

record MODULEENTRY32 =
  szModule :: "wchar_t list"
  modBaseSize :: DWORD

text \<open>\<open>MODULEENTRY32 moduleEntry = { sizeof(moduleEntry) }\<close>: all other members zeroed.\<close>

definition MODULEENTRY32_init :: MODULEENTRY32 where
  "MODULEENTRY32_init = \<lparr>szModule = [], modBaseSize = 0\<rparr>"

text \<open>
  The conversion \<open>std::wstring(const wchar_t*)\<close> applied to \<open>moduleEntry.szModule\<close>: it
  copies the characters up to the terminating NUL. (A buffer without a NUL is read past
  its end by the C++ code; the system always terminates the name.)
\<close>

definition wstring_of_cstr :: "wchar_t list \<Rightarrow> wstring" where
  "wstring_of_cstr buf = takeWhile (\<lambda>c. c \<noteq> 0) buf"


section \<open>The operating system as seen by the program\<close>

text \<open>
  The Tool Help library is outside the repository. It is modelled by a state the calls
  act on:
  \<^item> \<open>processes\<close> says, for every process ID, what \<open>CreateToolhelp32Snapshot\<close> does: it
    fails with an error code (\<open>Inl\<close>), or it produces a snapshot (\<open>Inr\<close>);
  \<^item> a snapshot holds the module entries the system delivers, in order, and the error
    code the system sets when \<open>Module32First\<close> or \<open>Module32Next\<close> has no entry to deliver
    (\<open>ERROR_NO_MORE_FILES\<close> at the normal end of the list, another code when the
    enumeration breaks off);
  \<^item> \<open>open_snapshots\<close> is the handle table: handle number, snapshot, entries not yet
    delivered;
  \<^item> \<open>last_error\<close> is the thread's last-error code, read by \<open>GetLastError\<close>;
  \<^item> \<open>calls\<close> records every call of the four handle functions, oldest first.
\<close>

record toolhelp_snapshot =
  entries :: "MODULEENTRY32 list"
  end_error :: DWORD

datatype os_call =
    Call_CreateToolhelp32Snapshot DWORD DWORD HANDLE
  | Call_Module32First HANDLE
  | Call_Module32Next HANDLE
  | Call_CloseHandle HANDLE

record os_state =
  processes :: "DWORD \<Rightarrow> DWORD + toolhelp_snapshot"
  open_snapshots :: "(nat \<times> toolhelp_snapshot \<times> MODULEENTRY32 list) list"
  last_error :: DWORD
  calls :: "os_call list"

definition fresh_handle :: "(nat \<times> 'a) list \<Rightarrow> nat" where
  "fresh_handle tbl = Suc (fold max (map fst tbl) 0)"

fun lookup_handle :: "HANDLE \<Rightarrow> os_state \<Rightarrow> (toolhelp_snapshot \<times> MODULEENTRY32 list) option" where
  "lookup_handle INVALID_HANDLE_VALUE os = None"
| "lookup_handle (Handle n) os = map_of (open_snapshots os) n"

definition log_call :: "os_call \<Rightarrow> os_state \<Rightarrow> os_state" where
  "log_call c os = os\<lparr>calls := calls os @ [c]\<rparr>"

definition SetLastError :: "DWORD \<Rightarrow> os_state \<Rightarrow> os_state" where
  "SetLastError e os = os\<lparr>last_error := e\<rparr>"

definition GetLastError :: "os_state \<Rightarrow> DWORD" where
  "GetLastError os = last_error os"

definition CreateToolhelp32Snapshot :: "DWORD \<Rightarrow> DWORD \<Rightarrow> os_state \<Rightarrow> HANDLE \<times> os_state" where
  "CreateToolhelp32Snapshot dwFlags th32ProcessID os =
     (case processes os th32ProcessID of
        Inl err \<Rightarrow>
          (INVALID_HANDLE_VALUE,
           log_call (Call_CreateToolhelp32Snapshot dwFlags th32ProcessID INVALID_HANDLE_VALUE)
             (SetLastError err os))
      | Inr snap \<Rightarrow>
          (let n = fresh_handle (open_snapshots os) in
           (Handle n,
            log_call (Call_CreateToolhelp32Snapshot dwFlags th32ProcessID (Handle n))
              (os\<lparr>open_snapshots := (n, snap, entries snap) # open_snapshots os\<rparr>))))"

text \<open>
  \<open>Module32First\<close> and \<open>Module32Next\<close> return the \<open>BOOL\<close> and the contents of the
  caller's \<open>MODULEENTRY32\<close> after the call (unchanged when the call fails).
\<close>

fun Module32First :: "HANDLE \<Rightarrow> MODULEENTRY32 \<Rightarrow> os_state \<Rightarrow> (bool \<times> MODULEENTRY32) \<times> os_state" where
  "Module32First INVALID_HANDLE_VALUE lpme os =
     ((False, lpme),
      log_call (Call_Module32First INVALID_HANDLE_VALUE) (SetLastError ERROR_INVALID_HANDLE os))"
| "Module32First (Handle n) lpme os =
     (case map_of (open_snapshots os) n of
        None \<Rightarrow>
          ((False, lpme),
           log_call (Call_Module32First (Handle n)) (SetLastError ERROR_INVALID_HANDLE os))
      | Some (snap, rest) \<Rightarrow>
          (case entries snap of
             [] \<Rightarrow>
               ((False, lpme),
                log_call (Call_Module32First (Handle n)) (SetLastError (end_error snap) os))
           | e # es \<Rightarrow>
               ((True, e),
                log_call (Call_Module32First (Handle n))
                  (os\<lparr>open_snapshots := AList.update n (snap, es) (open_snapshots os)\<rparr>))))"

fun Module32Next :: "HANDLE \<Rightarrow> MODULEENTRY32 \<Rightarrow> os_state \<Rightarrow> (bool \<times> MODULEENTRY32) \<times> os_state" where
  "Module32Next INVALID_HANDLE_VALUE lpme os =
     ((False, lpme),
      log_call (Call_Module32Next INVALID_HANDLE_VALUE) (SetLastError ERROR_INVALID_HANDLE os))"
| "Module32Next (Handle n) lpme os =
     (case map_of (open_snapshots os) n of
        None \<Rightarrow>
          ((False, lpme),
           log_call (Call_Module32Next (Handle n)) (SetLastError ERROR_INVALID_HANDLE os))
      | Some (snap, rest) \<Rightarrow>
          (case rest of
             [] \<Rightarrow>
               ((False, lpme),
                log_call (Call_Module32Next (Handle n)) (SetLastError (end_error snap) os))
           | e # es \<Rightarrow>
               ((True, e),
                log_call (Call_Module32Next (Handle n))
                  (os\<lparr>open_snapshots := AList.update n (snap, es) (open_snapshots os)\<rparr>))))"

fun CloseHandle :: "HANDLE \<Rightarrow> os_state \<Rightarrow> bool \<times> os_state" where
  "CloseHandle INVALID_HANDLE_VALUE os =
     (False, log_call (Call_CloseHandle INVALID_HANDLE_VALUE) (SetLastError ERROR_INVALID_HANDLE os))"
| "CloseHandle (Handle n) os =
     (case map_of (open_snapshots os) n of
        None \<Rightarrow>
          (False, log_call (Call_CloseHandle (Handle n)) (SetLastError ERROR_INVALID_HANDLE os))
      | Some c \<Rightarrow>
          (True,
           log_call (Call_CloseHandle (Handle n))
             (os\<lparr>open_snapshots := AList.delete n (open_snapshots os)\<rparr>)))"


section \<open>ModuleList.cpp\<close>

subsection \<open>ScopedHandle\<close>

record ScopedHandle =
  m_handle :: HANDLE

definition ScopedHandle_ctor :: "HANDLE \<Rightarrow> ScopedHandle" where
  "ScopedHandle_ctor h = \<lparr>m_handle = h\<rparr>"

text \<open>
  The destructor calls \<open>CloseHandle\<close> once and ignores its result. (It then stores
  \<open>INVALID_HANDLE_VALUE\<close> in the object, which ceases to exist.) Copying and moving are
  deleted, so the object constructed in \<open>GetModuleListInProcess\<close> is the only owner.
\<close>

definition ScopedHandle_dtor :: "ScopedHandle \<Rightarrow> os_state \<Rightarrow> os_state" where
  "ScopedHandle_dtor this os = snd (CloseHandle (m_handle this) os)"

definition Get :: "ScopedHandle \<Rightarrow> HANDLE" where
  "Get this = m_handle this"

subsection \<open>Win32Error and ThrowLastWin32Error\<close>

text \<open>
  What the program can throw and its top level can catch: a \<open>Win32Error\<close> (message and
  error code), thrown by \<open>ThrowLastWin32Error\<close>, or another exception derived from
  \<open>std::exception\<close> (its message), thrown by the standard library.
\<close>

datatype exception = Win32Error string DWORD | std_exception string

fun what :: "exception \<Rightarrow> string" where
  "what (Win32Error errorMessage errorCode) = errorMessage"
| "what (std_exception msg) = msg"

text \<open>\<open>ThrowLastWin32Error\<close> always throws; the model returns the exception thrown.\<close>

definition ThrowLastWin32Error :: "string \<Rightarrow> os_state \<Rightarrow> exception" where
  "ThrowLastWin32Error message os = (let errorCode = GetLastError os in Win32Error message errorCode)"

subsection \<open>ModuleInfo\<close>

record ModuleInfo =
  Name :: wstring
  Size :: DWORD

definition ModuleInfo_ctor :: "wstring \<Rightarrow> DWORD \<Rightarrow> ModuleInfo" where
  "ModuleInfo_ctor name sz = \<lparr>Name = name, Size = sz\<rparr>"

subsection \<open>GetModuleListInProcess\<close>

text \<open>
  The statement in the loop body,
  \<^verbatim>\<open>moduleList.push_back(ModuleInfo{ moduleEntry.szModule, moduleEntry.modBaseSize });\<close>
  builds a \<open>std::wstring\<close> and a \<open>ModuleInfo\<close> and appends it to the vector. Each step
  allocates memory and can throw an exception derived from \<open>std::exception\<close>
  (\<open>std::bad_alloc\<close>, \<open>std::length_error\<close>). Whether it does is not in the program's
  hands: it is given by the parameter \<open>heap\<close>, where \<open>heap n = Some msg\<close> says that the
  statement throws, with \<open>what()\<close> equal to \<open>msg\<close>, when the vector holds \<open>n\<close> elements,
  and \<open>heap n = None\<close> that it succeeds.
\<close>

type_synonym cxx_heap = "nat \<Rightarrow> string option"

definition push_back :: "cxx_heap \<Rightarrow> ModuleInfo list \<Rightarrow> ModuleInfo \<Rightarrow> exception + ModuleInfo list" where
  "push_back heap moduleList moduleInfo =
     (case heap (length moduleList) of
        Some msg \<Rightarrow> Inl (std_exception msg)
      | None \<Rightarrow> Inr (moduleList @ [moduleInfo]))"

text \<open>
  The \<open>while (continueEnumeration)\<close> loop of \<open>GetModuleListInProcess\<close>. Its state is the
  flag, the \<open>MODULEENTRY32\<close> last filled in, the vector built so far and the system's
  state. It is left when the flag is false (\<open>Inr\<close> with the vector) or by the exception
  the body throws (\<open>Inl\<close>).
\<close>

function enumeration_loop ::
  "cxx_heap \<Rightarrow> ScopedHandle \<Rightarrow> bool \<Rightarrow> MODULEENTRY32 \<Rightarrow> ModuleInfo list \<Rightarrow> os_state
     \<Rightarrow> (exception + ModuleInfo list) \<times> os_state" where
  "enumeration_loop heap enumHandle continueEnumeration moduleEntry moduleList os =
     (if continueEnumeration then
        (case push_back heap moduleList
                (ModuleInfo_ctor (wstring_of_cstr (szModule moduleEntry)) (modBaseSize moduleEntry)) of
           Inl e \<Rightarrow> (Inl e, os)
         | Inr moduleList' \<Rightarrow>
             (case Module32Next (Get enumHandle) moduleEntry os of
                ((continueEnumeration', moduleEntry'), os') \<Rightarrow>
                  enumeration_loop heap enumHandle continueEnumeration' moduleEntry' moduleList' os'))
      else (Inr moduleList, os))"
  by pat_completeness auto

text \<open>Entries the system has still to deliver through a handle (none for a handle not open).\<close>

definition remaining :: "HANDLE \<Rightarrow> os_state \<Rightarrow> nat" where
  "remaining h os = (case lookup_handle h os of None \<Rightarrow> 0 | Some (snap, rest) \<Rightarrow> length rest)"

lemma Module32Next_remaining:
  "Module32Next h lpme os = ((True, e), os') \<Longrightarrow> remaining h os' < remaining h os"
  by (cases h)
    (auto simp: remaining_def log_call_def SetLastError_def AList.update_conv'
      split: option.splits list.splits)

termination enumeration_loop
proof (relation "measure (\<lambda>(heap, enumHandle, c, e, ml, os).
                    if c then Suc (remaining (Get enumHandle) os) else 0)")
  show "wf (measure (\<lambda>(heap, enumHandle, c, e, ml, os).
              if c then Suc (remaining (Get enumHandle) os) else 0))"
    by simp
next
  fix heap :: cxx_heap and enumHandle :: ScopedHandle and continueEnumeration :: bool
    and moduleEntry :: MODULEENTRY32
    and moduleList moduleList' :: "ModuleInfo list" and os os' :: os_state
    and p :: "bool \<times> MODULEENTRY32"
    and continueEnumeration' :: bool and moduleEntry' :: MODULEENTRY32
  assume c: "continueEnumeration"
    and nxt: "(p, os') = Module32Next (Get enumHandle) moduleEntry os"
    and p: "(continueEnumeration', moduleEntry') = p"
  show "((heap, enumHandle, continueEnumeration', moduleEntry', moduleList', os'),
         (heap, enumHandle, continueEnumeration, moduleEntry, moduleList, os))
        \<in> measure (\<lambda>(heap, enumHandle, c, e, ml, os).
                     if c then Suc (remaining (Get enumHandle) os) else 0)"
  proof (cases continueEnumeration')
    case True
    with nxt p have "Module32Next (Get enumHandle) moduleEntry os = ((True, moduleEntry'), os')"
      by simp
    then have "remaining (Get enumHandle) os' < remaining (Get enumHandle) os"
      by (rule Module32Next_remaining)
    with c True show ?thesis by simp
  next
    case False
    with c show ?thesis by simp
  qed
qed

text \<open>
  The lifetime of the automatic object \<open>enumHandle\<close>: \<open>block\<close> is the rest of the function
  body after its declaration, and the destructor runs when the block is left, by the
  \<open>return\<close> or by an exception alike. The outcome of the block is passed on.
\<close>

definition ScopedHandle_scope ::
  "ScopedHandle \<Rightarrow> (os_state \<Rightarrow> (exception + 'a) \<times> os_state) \<Rightarrow> os_state
     \<Rightarrow> (exception + 'a) \<times> os_state" where
  "ScopedHandle_scope this block os =
     (case block os of (outcome, os') \<Rightarrow> (outcome, ScopedHandle_dtor this os'))"

definition GetModuleListInProcess ::
  "cxx_heap \<Rightarrow> DWORD \<Rightarrow> os_state \<Rightarrow> (exception + ModuleInfo list) \<times> os_state" where
  "GetModuleListInProcess heap processID os =
     (case CreateToolhelp32Snapshot TH32CS_SNAPMODULE processID os of
        (hEnum, os1) \<Rightarrow>
          if hEnum = INVALID_HANDLE_VALUE then
            (Inl (ThrowLastWin32Error
                    ''Cannot init the module enumeration process (CreateToolhelp32Snapshot failed).''
                    os1),
             os1)
          else
            (let enumHandle = ScopedHandle_ctor hEnum
             in ScopedHandle_scope enumHandle
                  (\<lambda>os1.
                     let moduleEntry = MODULEENTRY32_init
                     in case Module32First (Get enumHandle) moduleEntry os1 of
                          ((continueEnumeration, moduleEntry1), os2) \<Rightarrow>
                            (case enumeration_loop heap enumHandle continueEnumeration
                                    moduleEntry1 [] os2 of
                               (Inl e, os3) \<Rightarrow> (Inl e, os3)
                             | (Inr moduleList, os3) \<Rightarrow>
                                 (let lastError = GetLastError os3
                                  in if lastError \<noteq> ERROR_NO_MORE_FILES then
                                       (Inl (ThrowLastWin32Error
                                               ''Unexpected termination of the module enumeration process.''
                                               os3),
                                        os3)
                                     else (Inr moduleList, os3))))
                  os1))"

subsection \<open>wmain\<close>

text \<open>
  What has been inserted into \<open>std::wcout\<close>, one item per \<open><<\<close>: a wide string, a narrow
  string (\<open>e.what()\<close>), a wide character, or a \<open>DWORD\<close> (printed in decimal).
\<close>

datatype wcout_item = Wide wstring | Narrow string | WideChar wchar_t | Number DWORD

definition kExitOk :: int where
  "kExitOk = 0"

definition kExitError :: int where
  "kExitError = 1"

text \<open>\<open>static_cast<DWORD>(llResult)\<close> keeps the low 32 bits.\<close>

definition static_cast_DWORD :: "LONGLONG \<Rightarrow> DWORD" where
  "static_cast_DWORD ll = ucast ll"

text \<open>The range-based \<open>for\<close> loop that prints the module list.\<close>

fun print_module_list :: "wcout_item list \<Rightarrow> ModuleInfo list \<Rightarrow> wcout_item list" where
  "print_module_list wcout [] = wcout"
| "print_module_list wcout (moduleInfo # moduleList) =
     print_module_list
       (wcout @ [Wide (L '' - ''), Wide (Name moduleInfo), Wide (L ''  (''),
                 Number (Size moduleInfo), Wide (L '' bytes)\<newline>'')])
       moduleList"

text \<open>
  The \<open>try\<close> block of \<open>wmain\<close>. \<open>StrToInt64ExW\<close> belongs to the Shell API, outside the
  repository: it is a parameter, \<open>None\<close> for the result \<open>FALSE\<close> and \<open>Some v\<close> for \<open>TRUE\<close>
  with \<open>v\<close> stored in \<open>llResult\<close>. \<open>argc\<close> is the length of \<open>argv\<close>. The block returns
  normally with an exit status (\<open>Inr\<close>) or is left by an exception (\<open>Inl\<close>), which
  \<open>GetModuleListInProcess\<close> has thrown: the insertions into \<open>std::wcout\<close> do not throw.
\<close>

definition wmain_try ::
  "(wstring \<Rightarrow> DWORD \<Rightarrow> LONGLONG option) \<Rightarrow> cxx_heap \<Rightarrow> wstring list \<Rightarrow> os_state
     \<Rightarrow> (exception + int) \<times> wcout_item list \<times> os_state" where
  "wmain_try StrToInt64ExW heap argv os =
     (let argc = int (length argv);
          wcout = [Wide (L ''\<newline> *** Enumerate Modules in a Process *** \<newline>''),
                   Wide (L ''          by Giovanni Dicanio \<newline>\<newline>'')]
      in if argc \<noteq> 2 then
           (Inr kExitError,
            wcout @ [Wide (L ''Please pass the ID of the process to enumerate as the only parameter.\<newline>'')],
            os)
         else
           (case StrToInt64ExW (argv ! 1) STIF_DEFAULT of
              None \<Rightarrow>
                (Inr kExitError,
                 wcout @ [Wide (L ''Please pass the ID of the process to enumerate as an integer in base 10.\<newline>'')],
                 os)
            | Some llResult \<Rightarrow>
                (let processID = static_cast_DWORD llResult
                 in case GetModuleListInProcess heap processID os of
                      (Inl e, os') \<Rightarrow> (Inl e, wcout, os')
                    | (Inr moduleList, os') \<Rightarrow>
                        (Inr kExitOk,
                         print_module_list
                           (wcout @
                              [Wide (L '' Module List for Process ID = ''), Number processID,
                               Wide (L ''\<newline>''),
                               Wide (L '' ========================================\<newline>\<newline>'')])
                           moduleList,
                         os'))))"

text \<open>The two \<open>catch\<close> clauses, in the order of the source.\<close>

fun wmain_catch ::
  "(exception + int) \<times> wcout_item list \<times> os_state \<Rightarrow> int \<times> wcout_item list \<times> os_state" where
  "wmain_catch (Inr status, wcout, os) = (status, wcout, os)"
| "wmain_catch (Inl (Win32Error errorMessage errorCode), wcout, os) =
     (kExitError,
      wcout @ [Wide (L ''*** ERROR: ''), Narrow (what (Win32Error errorMessage errorCode)),
               WideChar (of_nat (of_char CHR ''\<newline>'')),
               Wide (L ''    (Error code: ''), Number errorCode, Wide (L '')\<newline>'')],
      os)"
| "wmain_catch (Inl (std_exception msg), wcout, os) =
     (kExitError,
      wcout @ [Wide (L ''*** ERROR: ''), Narrow (what (std_exception msg)),
               WideChar (of_nat (of_char CHR ''\<newline>''))],
      os)"

definition wmain ::
  "(wstring \<Rightarrow> DWORD \<Rightarrow> LONGLONG option) \<Rightarrow> cxx_heap \<Rightarrow> wstring list \<Rightarrow> os_state
     \<Rightarrow> int \<times> wcout_item list \<times> os_state" where
  "wmain StrToInt64ExW heap argv os = wmain_catch (wmain_try StrToInt64ExW heap argv os)"


section \<open>Vocabulary of the properties\<close>

text \<open>The \<open>ModuleInfo\<close> the loop body builds from a module entry.\<close>

definition module_info :: "MODULEENTRY32 \<Rightarrow> ModuleInfo" where
  "module_info e = ModuleInfo_ctor (wstring_of_cstr (szModule e)) (modBaseSize e)"

text \<open>
  What the loop makes of the entries still to be handled, the first of them being the one
  in \<open>moduleEntry\<close>: its outcome, and the number of \<open>Module32Next\<close> calls it makes.
\<close>

fun loop_outcome :: "cxx_heap \<Rightarrow> ModuleInfo list \<Rightarrow> MODULEENTRY32 list \<Rightarrow> exception + ModuleInfo list" where
  "loop_outcome heap moduleList [] = Inr moduleList"
| "loop_outcome heap moduleList (e # es) =
     (case heap (length moduleList) of
        Some msg \<Rightarrow> Inl (std_exception msg)
      | None \<Rightarrow> loop_outcome heap (moduleList @ [module_info e]) es)"

fun loop_nexts :: "cxx_heap \<Rightarrow> nat \<Rightarrow> MODULEENTRY32 list \<Rightarrow> nat" where
  "loop_nexts heap n [] = 0"
| "loop_nexts heap n (e # es) =
     (case heap n of Some msg \<Rightarrow> 0 | None \<Rightarrow> Suc (loop_nexts heap (Suc n) es))"

text \<open>
  Counting in a call record: a successful open is a \<open>CreateToolhelp32Snapshot\<close> call that
  returned a handle other than the sentinel; a close is a \<open>CloseHandle\<close> call.
\<close>

fun is_open :: "os_call \<Rightarrow> bool" where
  "is_open (Call_CreateToolhelp32Snapshot dwFlags pid h) = (h \<noteq> INVALID_HANDLE_VALUE)"
| "is_open (Call_Module32First h) = False"
| "is_open (Call_Module32Next h) = False"
| "is_open (Call_CloseHandle h) = False"

fun is_close :: "os_call \<Rightarrow> bool" where
  "is_close (Call_CreateToolhelp32Snapshot dwFlags pid h) = False"
| "is_close (Call_Module32First h) = False"
| "is_close (Call_Module32Next h) = False"
| "is_close (Call_CloseHandle h) = True"

text \<open>The calls made between two states of the system.\<close>

definition calls_since :: "os_state \<Rightarrow> os_state \<Rightarrow> os_call list" where
  "calls_since os os' = drop (length (calls os)) (calls os')"

subsection \<open>A system and a parser to run the program on\<close>

text \<open>
  Process 4242 has the modules alpha.dll (1024 bytes) and beta.dll (2048 bytes); the
  enumeration of process 4 breaks off after one entry with error 5
  (\<open>ERROR_ACCESS_DENIED\<close>); process 4294967295 has no module; every other process ID is
  refused with error 87 (\<open>ERROR_INVALID_PARAMETER\<close>). The name buffers hold a NUL after the
  name, and the second one stale characters after it.
\<close>

definition alpha_dll :: MODULEENTRY32 where
  "alpha_dll = \<lparr>szModule = L ''alpha.dll'' @ [0], modBaseSize = 1024\<rparr>"

definition beta_dll :: MODULEENTRY32 where
  "beta_dll = \<lparr>szModule = L ''beta.dll'' @ [0] @ L ''ll'' @ [0], modBaseSize = 2048\<rparr>"

definition example_os :: os_state where
  "example_os =
     \<lparr>processes =
        (\<lambda>pid. if pid = 4242 then Inr \<lparr>entries = [alpha_dll, beta_dll], end_error = ERROR_NO_MORE_FILES\<rparr>
               else if pid = 4 then Inr \<lparr>entries = [alpha_dll], end_error = 5\<rparr>
               else if pid = 4294967295 then Inr \<lparr>entries = [], end_error = ERROR_NO_MORE_FILES\<rparr>
               else Inl 87),
      open_snapshots = [],
      last_error = 0,
      calls = []\<rparr>"

text \<open>
  Two heaps: one on which no allocation fails, and one on which the second \<open>push_back\<close>
  throws \<open>std::bad_alloc\<close>.
\<close>

definition ample_heap :: cxx_heap where
  "ample_heap = (\<lambda>n. None)"

definition tight_heap :: cxx_heap where
  "tight_heap = (\<lambda>n. if n = 1 then Some ''bad allocation'' else None)"

text \<open>
  A decimal parser in the manner of \<open>StrToInt64ExW\<close> with \<open>STIF_DEFAULT\<close>: blanks, an
  optional sign, then at least one digit; it stops at the first character that is not a
  digit. It only serves to run \<open>wmain\<close> on concrete command lines: the theorems about
  \<open>wmain\<close> hold for every parser.
\<close>

definition iswdigit :: "wchar_t \<Rightarrow> bool" where
  "iswdigit c = (48 \<le> c \<and> c \<le> 57)"

fun decimal_value :: "LONGLONG \<Rightarrow> wstring \<Rightarrow> LONGLONG" where
  "decimal_value v [] = v"
| "decimal_value v (c # cs) =
     (if iswdigit c then decimal_value (v * 10 + ucast (c - 48)) cs else v)"

definition decimal_parser :: "wstring \<Rightarrow> DWORD \<Rightarrow> LONGLONG option" where
  "decimal_parser pszString dwFlags =
     (let s = dropWhile (\<lambda>c. c = 32 \<or> c = 9) pszString;
          negative = (s \<noteq> [] \<and> hd s = 45);
          digits = (if s \<noteq> [] \<and> (hd s = 45 \<or> hd s = 43) then tl s else s)
      in if digits \<noteq> [] \<and> iswdigit (hd digits)
         then Some (if negative then - decimal_value 0 digits else decimal_value 0 digits)
         else None)"


section \<open>The system model: fresh handles\<close>

lemma fold_max_ge: "a \<le> fold max xs (a::nat)"
  by (induction xs arbitrary: a) (auto intro: order_trans [OF max.cobounded2])

lemma fold_max_mem: "x \<in> set xs \<Longrightarrow> x \<le> fold max xs (a::nat)"
proof (induction xs arbitrary: a)
  case Nil
  then show ?case by simp
next
  case (Cons y ys)
  show ?case
  proof (cases "x = y")
    case True
    have "x \<le> max y a" using True by simp
    also have "\<dots> \<le> fold max ys (max y a)" by (rule fold_max_ge)
    finally show ?thesis by simp
  next
    case False
    with Cons.prems have "x \<in> set ys" by simp
    then show ?thesis using Cons.IH by simp
  qed
qed

lemma fresh_handle_notin: "fresh_handle tbl \<notin> fst ` set tbl"
proof
  assume "fresh_handle tbl \<in> fst ` set tbl"
  then have "fresh_handle tbl \<in> set (map fst tbl)" by simp
  then have "fresh_handle tbl \<le> fold max (map fst tbl) 0" by (rule fold_max_mem)
  then show False by (simp add: fresh_handle_def)
qed

lemma map_of_fresh_handle: "map_of tbl (fresh_handle tbl) = None"
  using fresh_handle_notin [of tbl] by (simp add: map_of_eq_None_iff)

section \<open>What the loop and GetModuleListInProcess compute\<close>

lemma enumeration_loop_run:
  "map_of (open_snapshots os) n = Some (snap, rest) \<Longrightarrow>
   \<exists>rest'. enumeration_loop heap \<lparr>m_handle = Handle n\<rparr> True e ml os =
     (loop_outcome heap ml (e # rest),
      os\<lparr>open_snapshots := AList.update n (snap, rest') (open_snapshots os),
         last_error := (case loop_outcome heap ml (e # rest) of
                          Inl x \<Rightarrow> last_error os | Inr moduleList \<Rightarrow> end_error snap),
         calls := calls os @
           replicate (loop_nexts heap (length ml) (e # rest)) (Call_Module32Next (Handle n))\<rparr>)"
proof (induction rest arbitrary: e ml os)
  case Nil
  show ?case
  proof (cases "heap (length ml)")
    case None
    with Nil have "enumeration_loop heap \<lparr>m_handle = Handle n\<rparr> True e ml os =
        (Inr (ml @ [module_info e]),
         os\<lparr>last_error := end_error snap,
            calls := calls os @ [Call_Module32Next (Handle n)]\<rparr>)"
      by (simp add: push_back_def Get_def log_call_def SetLastError_def module_info_def)
    with None Nil show ?thesis
      by (auto simp: AList.update_triv intro!: exI [of _ "[]"])
  next
    case (Some msg)
    with Nil have "enumeration_loop heap \<lparr>m_handle = Handle n\<rparr> True e ml os =
        (Inl (std_exception msg), os)"
      by (simp add: push_back_def)
    with Some Nil show ?thesis
      by (auto simp: AList.update_triv intro!: exI [of _ "[]"])
  qed
next
  case (Cons e' es)
  show ?case
  proof (cases "heap (length ml)")
    case None
    let ?os' = "log_call (Call_Module32Next (Handle n))
                  (os\<lparr>open_snapshots := AList.update n (snap, es) (open_snapshots os)\<rparr>)"
    have nxt: "Module32Next (Handle n) e os = ((True, e'), ?os')"
      using Cons.prems by simp
    have tbl: "map_of (open_snapshots ?os') n = Some (snap, es)"
      by (simp add: log_call_def AList.update_conv')
    from Cons.IH [OF tbl, of e' "ml @ [module_info e]"]
    obtain rest' where run:
      "enumeration_loop heap \<lparr>m_handle = Handle n\<rparr> True e' (ml @ [module_info e]) ?os' =
        (loop_outcome heap (ml @ [module_info e]) (e' # es),
         ?os'\<lparr>open_snapshots := AList.update n (snap, rest') (open_snapshots ?os'),
              last_error := (case loop_outcome heap (ml @ [module_info e]) (e' # es) of
                               Inl x \<Rightarrow> last_error ?os' | Inr moduleList \<Rightarrow> end_error snap),
              calls := calls ?os' @
                replicate (loop_nexts heap (length (ml @ [module_info e])) (e' # es))
                  (Call_Module32Next (Handle n))\<rparr>)"
      by blast
    have step: "enumeration_loop heap \<lparr>m_handle = Handle n\<rparr> True e ml os =
        enumeration_loop heap \<lparr>m_handle = Handle n\<rparr> True e' (ml @ [module_info e]) ?os'"
      apply (subst enumeration_loop.simps)
      apply (simp add: push_back_def None Get_def nxt module_info_def
          del: Module32Next.simps enumeration_loop.simps)
      done
    show ?thesis
      unfolding step run
      apply (rule exI [of _ rest'])
      apply (simp add: None log_call_def replicate_append_same cong: sum.case_cong)
      done
  next
    case (Some msg)
    have "enumeration_loop heap \<lparr>m_handle = Handle n\<rparr> True e ml os =
        (Inl (std_exception msg), os)"
      using Some by (simp add: push_back_def)
    with Some Cons.prems show ?thesis
      by (auto simp: AList.update_triv intro!: exI [of _ "e' # es"])
  qed
qed

lemma loop_outcome_Inr:
  "loop_outcome heap ml es = Inr ml' \<Longrightarrow> ml' = ml @ map module_info es"
proof (induction es arbitrary: ml)
  case Nil
  then show ?case by simp
next
  case (Cons e es)
  from Cons.prems have "loop_outcome heap (ml @ [module_info e]) es = Inr ml'"
    by (simp split: option.splits)
  from Cons.IH [OF this] show ?case by simp
qed

lemma loop_without_throw:
  "(\<forall>i < length es. heap (length ml + i) = None) \<Longrightarrow>
   loop_outcome heap ml es = Inr (ml @ map module_info es) \<and>
   loop_nexts heap (length ml) es = length es"
proof (induction es arbitrary: ml)
  case Nil
  show ?case by simp
next
  case (Cons e es)
  from Cons.prems have here: "heap (length ml) = None"
    by force
  have "\<forall>i < length es. heap (length (ml @ [module_info e]) + i) = None"
  proof (intro allI impI)
    fix i assume "i < length es"
    then have "Suc i < length (e # es)" by simp
    with Cons.prems have "heap (length ml + Suc i) = None" by blast
    then show "heap (length (ml @ [module_info e]) + i) = None" by simp
  qed
  from Cons.IH [OF this] here show ?case by simp
qed


lemma GetModuleListInProcess_no_snapshot:
  assumes "processes os processID = Inl err"
  shows "GetModuleListInProcess heap processID os =
     (Inl (Win32Error ''Cannot init the module enumeration process (CreateToolhelp32Snapshot failed).'' err),
      os\<lparr>last_error := err,
         calls := calls os @
           [Call_CreateToolhelp32Snapshot TH32CS_SNAPMODULE processID INVALID_HANDLE_VALUE]\<rparr>)"
  using assms
  by (simp add: GetModuleListInProcess_def CreateToolhelp32Snapshot_def ThrowLastWin32Error_def
      GetLastError_def log_call_def SetLastError_def)

lemma GetModuleListInProcess_snapshot:
  assumes "processes os processID = Inr snap"
  shows "GetModuleListInProcess heap processID os =
     ((case loop_outcome heap [] (entries snap) of
         Inl e \<Rightarrow> Inl e
       | Inr moduleList \<Rightarrow>
           if end_error snap \<noteq> ERROR_NO_MORE_FILES then
             Inl (Win32Error ''Unexpected termination of the module enumeration process.''
                    (end_error snap))
           else Inr moduleList),
      os\<lparr>last_error :=
           (case loop_outcome heap [] (entries snap) of
              Inl e \<Rightarrow> last_error os | Inr moduleList \<Rightarrow> end_error snap),
         calls := calls os @
           [Call_CreateToolhelp32Snapshot TH32CS_SNAPMODULE processID
              (Handle (fresh_handle (open_snapshots os))),
            Call_Module32First (Handle (fresh_handle (open_snapshots os)))] @
           replicate (loop_nexts heap 0 (entries snap))
             (Call_Module32Next (Handle (fresh_handle (open_snapshots os)))) @
           [Call_CloseHandle (Handle (fresh_handle (open_snapshots os)))]\<rparr>)"
proof -
  define n where "n = fresh_handle (open_snapshots os)"
  define os1 where "os1 = log_call (Call_CreateToolhelp32Snapshot TH32CS_SNAPMODULE processID (Handle n))
              (os\<lparr>open_snapshots := (n, snap, entries snap) # open_snapshots os\<rparr>)"
  have notin: "n \<notin> fst ` set (open_snapshots os)"
    unfolding n_def by (rule fresh_handle_notin)
  have create: "CreateToolhelp32Snapshot TH32CS_SNAPMODULE processID os = (Handle n, os1)"
    using assms by (simp add: CreateToolhelp32Snapshot_def n_def os1_def Let_def)
  show ?thesis
  proof (cases "entries snap")
    case Nil
    have first: "Module32First (Handle n) MODULEENTRY32_init os1 =
        ((False, MODULEENTRY32_init), log_call (Call_Module32First (Handle n)) (SetLastError (end_error snap) os1))"
      using Nil by (simp add: os1_def log_call_def)
    show ?thesis
      unfolding GetModuleListInProcess_def create
      apply (simp add: ScopedHandle_scope_def ScopedHandle_ctor_def Get_def first Let_def
          del: Module32First.simps)
      apply (simp add: ScopedHandle_dtor_def GetLastError_def ThrowLastWin32Error_def
          log_call_def SetLastError_def os1_def Nil notin n_def [symmetric])
      done
  next
    case (Cons e es)
    let ?os2 = "log_call (Call_Module32First (Handle n))
                  (os1\<lparr>open_snapshots := AList.update n (snap, es) (open_snapshots os1)\<rparr>)"
    have first: "Module32First (Handle n) MODULEENTRY32_init os1 = ((True, e), ?os2)"
      using Cons by (simp add: os1_def log_call_def)
    have tbl: "map_of (open_snapshots ?os2) n = Some (snap, es)"
      by (simp add: log_call_def AList.update_conv')
    from enumeration_loop_run [OF tbl, of heap e "[]"]
    obtain rest' where run:
      "enumeration_loop heap \<lparr>m_handle = Handle n\<rparr> True e [] ?os2 =
        (loop_outcome heap [] (e # es),
         ?os2\<lparr>open_snapshots := AList.update n (snap, rest') (open_snapshots ?os2),
              last_error := (case loop_outcome heap [] (e # es) of
                               Inl x \<Rightarrow> last_error ?os2 | Inr moduleList \<Rightarrow> end_error snap),
              calls := calls ?os2 @
                replicate (loop_nexts heap (length ([] :: ModuleInfo list)) (e # es))
                  (Call_Module32Next (Handle n))\<rparr>)"
      by blast
    show ?thesis
    proof (cases "loop_outcome heap [] (e # es)")
      case (Inl exn)
      show ?thesis
        unfolding GetModuleListInProcess_def create
        apply (simp add: ScopedHandle_scope_def ScopedHandle_ctor_def Get_def first Let_def run Inl
            del: Module32First.simps enumeration_loop.simps loop_outcome.simps loop_nexts.simps)
        apply (simp add: ScopedHandle_dtor_def log_call_def os1_def Cons Inl notin n_def [symmetric]
            AList.update_conv' AList.delete_update_same
            del: loop_outcome.simps loop_nexts.simps)
        done
    next
      case (Inr moduleList)
      show ?thesis
        unfolding GetModuleListInProcess_def create
        apply (simp add: ScopedHandle_scope_def ScopedHandle_ctor_def Get_def first Let_def run Inr
            del: Module32First.simps enumeration_loop.simps loop_outcome.simps loop_nexts.simps)
        apply (simp add: ScopedHandle_dtor_def GetLastError_def ThrowLastWin32Error_def
            log_call_def os1_def Cons Inr notin n_def [symmetric]
            AList.update_conv' AList.delete_update_same
            del: loop_outcome.simps loop_nexts.simps)
        done
    qed
  qed
qed

lemma CreateToolhelp32Snapshot_failed:
  assumes "CreateToolhelp32Snapshot dwFlags processID os = (INVALID_HANDLE_VALUE, os1)"
  shows "processes os processID = Inl (last_error os1)"
    and "os1 = os\<lparr>last_error := last_error os1,
                   calls := calls os @
                     [Call_CreateToolhelp32Snapshot dwFlags processID INVALID_HANDLE_VALUE]\<rparr>"
  using assms
  by (auto simp: CreateToolhelp32Snapshot_def log_call_def SetLastError_def Let_def
      split: sum.splits)

lemma CreateToolhelp32Snapshot_succeeded:
  assumes "CreateToolhelp32Snapshot dwFlags processID os = (hEnum, os1)"
    and "hEnum \<noteq> INVALID_HANDLE_VALUE"
  shows "\<exists>snap. processes os processID = Inr snap \<and>
           hEnum = Handle (fresh_handle (open_snapshots os)) \<and>
           os1 = os\<lparr>open_snapshots :=
                      (fresh_handle (open_snapshots os), snap, entries snap) # open_snapshots os,
                    calls := calls os @ [Call_CreateToolhelp32Snapshot dwFlags processID hEnum]\<rparr>"
  using assms
  by (auto simp: CreateToolhelp32Snapshot_def log_call_def SetLastError_def Let_def
      split: sum.splits)


lemma enumeration_after_first:
  assumes snap: "processes os processID = Inr snap"
    and create: "CreateToolhelp32Snapshot dwFlags processID os = (hEnum, os1)"
    and first: "Module32First hEnum MODULEENTRY32_init os1 = ((c, e), os2)"
    and loop: "enumeration_loop heap (ScopedHandle_ctor hEnum) c e [] os2 = (Inr moduleList, os3)"
  shows "moduleList = map module_info (entries snap)"
    and "last_error os3 = end_error snap"
proof -
  define n where "n = fresh_handle (open_snapshots os)"
  have h: "hEnum = Handle n"
    and os1: "os1 = log_call (Call_CreateToolhelp32Snapshot dwFlags processID (Handle n))
              (os\<lparr>open_snapshots := (n, snap, entries snap) # open_snapshots os\<rparr>)"
    using snap create by (auto simp add: CreateToolhelp32Snapshot_def n_def Let_def)
  have "moduleList = map module_info (entries snap) \<and> last_error os3 = end_error snap"
  proof (cases "entries snap")
    case Nil
    with first have "c = False" and "os2 = log_call (Call_Module32First (Handle n)) (SetLastError (end_error snap) os1)"
      by (simp_all add: h os1 log_call_def)
    with loop Nil show ?thesis
      by (auto simp: h os1 log_call_def SetLastError_def)
  next
    case (Cons e' es)
    let ?os2 = "log_call (Call_Module32First (Handle n))
                  (os1\<lparr>open_snapshots := AList.update n (snap, es) (open_snapshots os1)\<rparr>)"
    from first Cons have c: "c = True" and e: "e = e'" and os2: "os2 = ?os2"
      by (simp_all add: h os1 log_call_def)
    have tbl: "map_of (open_snapshots ?os2) n = Some (snap, es)"
      by (simp add: log_call_def AList.update_conv')
    from enumeration_loop_run [OF tbl, of heap e' "[]"]
    obtain os3' where run:
      "enumeration_loop heap \<lparr>m_handle = Handle n\<rparr> True e' [] ?os2 =
        (loop_outcome heap [] (e' # es),
         os3'\<lparr>last_error := (case loop_outcome heap [] (e' # es) of
                               Inl x \<Rightarrow> last_error ?os2 | Inr moduleList \<Rightarrow> end_error snap),
              calls := calls ?os2 @
                replicate (loop_nexts heap (length ([] :: ModuleInfo list)) (e' # es))
                  (Call_Module32Next (Handle n))\<rparr>)"
      by blast
    let ?os3 = "os3'\<lparr>last_error := (case loop_outcome heap [] (e' # es) of
                               Inl x \<Rightarrow> last_error ?os2 | Inr moduleList \<Rightarrow> end_error snap),
              calls := calls ?os2 @
                replicate (loop_nexts heap (length ([] :: ModuleInfo list)) (e' # es))
                  (Call_Module32Next (Handle n))\<rparr>"
    from loop have both: "(loop_outcome heap [] (e' # es), ?os3) = (Inr moduleList, os3)"
      unfolding c e os2 h ScopedHandle_ctor_def run .
    then have out: "loop_outcome heap [] (e' # es) = Inr moduleList"
      by (simp only: prod.inject)
    from both have os3: "os3 = ?os3"
      by blast
    have err: "last_error os3 = end_error snap"
      by (subst os3) (simp add: out del: loop_outcome.simps loop_nexts.simps)
    from loop_outcome_Inr [OF out]
    have "moduleList = map module_info (e' # es)"
      by simp
    with err Cons show ?thesis by simp
  qed
  then show "moduleList = map module_info (entries snap)"
    and "last_error os3 = end_error snap"
    by simp_all
qed

lemma static_cast_DWORD_mod: "uint (static_cast_DWORD ll) = sint ll mod 2 ^ 32"
proof -
  have "uint (static_cast_DWORD ll) = take_bit 32 (uint ll)"
    by (simp add: static_cast_DWORD_def unsigned_ucast_eq)
  also have "\<dots> = take_bit 32 (signed_take_bit 63 (uint ll))"
    by (simp add: take_bit_signed_take_bit)
  also have "\<dots> = take_bit 32 (sint ll)"
    by (simp add: sint_uint)
  also have "\<dots> = sint ll mod 2 ^ 32"
    by (rule take_bit_eq_mod)
  finally show ?thesis .
qed

lemma GetModuleListInProcess_first_call:
  "\<exists>h cs. calls_since os (snd (GetModuleListInProcess heap processID os)) =
     Call_CreateToolhelp32Snapshot TH32CS_SNAPMODULE processID h # cs"
proof (cases "processes os processID")
  case (Inl err)
  then show ?thesis
    by (simp add: GetModuleListInProcess_no_snapshot [where err = err] calls_since_def)
next
  case (Inr snap)
  then show ?thesis
    by (simp add: GetModuleListInProcess_snapshot [where snap = snap] calls_since_def)
qed

lemma loop_outcome_Inl:
  "loop_outcome heap ml es = Inl e \<Longrightarrow> \<exists>n msg. heap n = Some msg \<and> e = std_exception msg"
proof (induction es arbitrary: ml)
  case Nil
  then show ?case by simp
next
  case (Cons e' es)
  show ?case
  proof (cases "heap (length ml)")
    case None
    with Cons.prems have "loop_outcome heap (ml @ [module_info e']) es = Inl e"
      by simp
    then show ?thesis by (rule Cons.IH)
  next
    case (Some msg)
    with Cons.prems have "e = std_exception msg" by simp
    with Some show ?thesis by blast
  qed
qed

lemma GetModuleListInProcess_throws:
  assumes "fst (GetModuleListInProcess heap processID os) = Inl e"
  shows "(\<exists>errorCode. e = Win32Error
            ''Cannot init the module enumeration process (CreateToolhelp32Snapshot failed).''
            errorCode)
       \<or> (\<exists>errorCode. e = Win32Error
            ''Unexpected termination of the module enumeration process.'' errorCode)
       \<or> (\<exists>n msg. heap n = Some msg \<and> e = std_exception msg)"
proof (cases "processes os processID")
  case (Inl err)
  with assms show ?thesis
    by (auto simp add: GetModuleListInProcess_no_snapshot [where err = err])
next
  case (Inr snap)
  show ?thesis
  proof (cases "loop_outcome heap [] (entries snap)")
    case (Inl exn)
    with assms Inr have "e = exn"
      by (simp add: GetModuleListInProcess_snapshot [where snap = snap])
    with loop_outcome_Inl [OF Inl] show ?thesis by blast
  next
    case inr: (Inr moduleList)
    with assms Inr show ?thesis
      by (auto simp add: GetModuleListInProcess_snapshot [where snap = snap] split: if_splits)
  qed
qed

text \<open>The definitions unfolded to run the program on the example system.\<close>

lemmas run_defs =
  example_os_def alpha_dll_def beta_dll_def CreateToolhelp32Snapshot_def fresh_handle_def
  log_call_def SetLastError_def GetLastError_def TH32CS_SNAPMODULE_def ERROR_NO_MORE_FILES_def
  ERROR_INVALID_HANDLE_def Get_def ScopedHandle_ctor_def ScopedHandle_dtor_def
  ScopedHandle_scope_def push_back_def ample_heap_def tight_heap_def
  MODULEENTRY32_init_def ModuleInfo_ctor_def wstring_of_cstr_def module_info_def
  ThrowLastWin32Error_def GetModuleListInProcess_def calls_since_def L_def


section \<open>Properties of GetModuleListInProcess\<close>

text \<open>
  C1. When the enumeration loop has terminated, \<open>GetModuleListInProcess\<close> returns the
  module list only if the system's last-error code is \<open>ERROR_NO_MORE_FILES\<close>; for every
  other code it throws a \<open>Win32Error\<close> with the message "Unexpected termination of the
  module enumeration process." that carries this code. The hypotheses name the states the
  function goes through: \<open>os1\<close> after the snapshot was created, \<open>os2\<close> after
  \<open>Module32First\<close>, \<open>os3\<close> when the loop is left because the flag is false. The last-error
  code in \<open>os3\<close> is the one the system set when it had no further entry to deliver.
\<close>

theorem enumeration_end_decides_outcome:
  assumes "CreateToolhelp32Snapshot TH32CS_SNAPMODULE processID os = (hEnum, os1)"
    and "hEnum \<noteq> INVALID_HANDLE_VALUE"
    and "Module32First hEnum MODULEENTRY32_init os1 = ((continueEnumeration, moduleEntry), os2)"
    and "enumeration_loop heap (ScopedHandle_ctor hEnum) continueEnumeration moduleEntry [] os2
           = (Inr moduleList, os3)"
  shows "fst (GetModuleListInProcess heap processID os) =
           (if GetLastError os3 = ERROR_NO_MORE_FILES then Inr moduleList
            else Inl (Win32Error ''Unexpected termination of the module enumeration process.''
                        (GetLastError os3)))
         \<and> (\<exists>snap. processes os processID = Inr snap \<and> GetLastError os3 = end_error snap)"
proof -
  from CreateToolhelp32Snapshot_succeeded [OF assms(1,2)]
  obtain snap where snap: "processes os processID = Inr snap" by blast
  have "GetLastError os3 = end_error snap"
    unfolding GetLastError_def
    by (rule enumeration_after_first(2) [OF snap assms(1) assms(3) assms(4)])
  moreover have "fst (GetModuleListInProcess heap processID os) =
           (if GetLastError os3 = ERROR_NO_MORE_FILES then Inr moduleList
            else Inl (Win32Error ''Unexpected termination of the module enumeration process.''
                        (GetLastError os3)))"
    using assms
    by (simp add: GetModuleListInProcess_def ScopedHandle_scope_def Get_def ScopedHandle_ctor_def
        ThrowLastWin32Error_def Let_def del: enumeration_loop.simps Module32First.simps)
  ultimately show ?thesis using snap by simp
qed

theorem enumeration_end_decides_outcome_witness:
  "fst (GetModuleListInProcess ample_heap 4 example_os) =
     Inl (Win32Error ''Unexpected termination of the module enumeration process.'' 5)
   \<and> fst (GetModuleListInProcess ample_heap 4242 example_os) =
     Inr [\<lparr>Name = L ''alpha.dll'', Size = 1024\<rparr>, \<lparr>Name = L ''beta.dll'', Size = 2048\<rparr>]"
proof -
  let ?C = "\<lambda>pid. CreateToolhelp32Snapshot TH32CS_SNAPMODULE pid example_os"
  let ?F = "\<lambda>pid. Module32First (fst (?C pid)) MODULEENTRY32_init (snd (?C pid))"
  let ?W = "\<lambda>pid. enumeration_loop ample_heap (ScopedHandle_ctor (fst (?C pid)))
                     (fst (fst (?F pid))) (snd (fst (?F pid))) [] (snd (?F pid))"
  have valid: "fst (?C 4) \<noteq> INVALID_HANDLE_VALUE" "fst (?C 4242) \<noteq> INVALID_HANDLE_VALUE"
    by (simp_all add: run_defs)
  have left: "?W 4 = (Inr [\<lparr>Name = L ''alpha.dll'', Size = 1024\<rparr>], snd (?W 4))"
    "?W 4242 =
       (Inr [\<lparr>Name = L ''alpha.dll'', Size = 1024\<rparr>, \<lparr>Name = L ''beta.dll'', Size = 2048\<rparr>],
        snd (?W 4242))"
    by (simp_all add: run_defs)
  have broken: "GetLastError (snd (?W 4)) = 5"
    by (simp add: run_defs)
  have ended: "GetLastError (snd (?W 4242)) = ERROR_NO_MORE_FILES"
    by (simp add: run_defs)
  have first: "?F 4 = ((fst (fst (?F 4)), snd (fst (?F 4))), snd (?F 4))"
    "?F 4242 = ((fst (fst (?F 4242)), snd (fst (?F 4242))), snd (?F 4242))"
    by (simp_all del: Module32First.simps)
  from enumeration_end_decides_outcome [OF surjective_pairing valid(1) first(1) left(1)]
    enumeration_end_decides_outcome [OF surjective_pairing valid(2) first(2) left(2)]
  show ?thesis
    unfolding broken ended by (simp add: ERROR_NO_MORE_FILES_def)
qed

text \<open>
  C2. In every call of \<open>GetModuleListInProcess\<close> in which \<open>CreateToolhelp32Snapshot\<close>
  returns a handle other than \<open>INVALID_HANDLE_VALUE\<close>, the calls the function makes contain
  exactly one successful open and exactly one \<open>CloseHandle\<close>, of that very handle, as the
  last call; the handle is open after the creation and closed at the exit, and the handle
  table is what it was before the call. This holds on every heap and for every snapshot,
  hence at each of the three exits: the \<open>return\<close>, the \<open>Win32Error\<close> thrown after the
  loop, and the exception of the standard library that leaves the loop body and passes
  through the function.
\<close>

theorem handle_released_exactly_once:
  assumes "CreateToolhelp32Snapshot TH32CS_SNAPMODULE processID os = (hEnum, os1)"
    and "hEnum \<noteq> INVALID_HANDLE_VALUE"
  shows "let os' = snd (GetModuleListInProcess heap processID os); cs = calls_since os os' in
           calls os' = calls os @ cs \<and>
           filter is_open cs = [Call_CreateToolhelp32Snapshot TH32CS_SNAPMODULE processID hEnum] \<and>
           filter is_close cs = [Call_CloseHandle hEnum] \<and>
           length (filter is_open cs) = 1 \<and> length (filter is_close cs) = 1 \<and>
           last cs = Call_CloseHandle hEnum \<and>
           lookup_handle hEnum os1 \<noteq> None \<and> lookup_handle hEnum os' = None \<and>
           open_snapshots os' = open_snapshots os"
proof -
  from CreateToolhelp32Snapshot_succeeded [OF assms]
  obtain snap where snap: "processes os processID = Inr snap"
    and h: "hEnum = Handle (fresh_handle (open_snapshots os))"
    and os1: "os1 = os\<lparr>open_snapshots :=
                      (fresh_handle (open_snapshots os), snap, entries snap) # open_snapshots os,
                    calls := calls os @
                      [Call_CreateToolhelp32Snapshot TH32CS_SNAPMODULE processID hEnum]\<rparr>"
    by blast
  have opened: "lookup_handle hEnum os1 \<noteq> None"
    by (subst os1) (simp add: h)
  show ?thesis
    unfolding Let_def GetModuleListInProcess_snapshot [OF snap] calls_since_def
    using opened by (simp add: h map_of_fresh_handle)
qed

theorem handle_released_exactly_once_witness:
  "fst (GetModuleListInProcess ample_heap 4242 example_os) =
     Inr [\<lparr>Name = L ''alpha.dll'', Size = 1024\<rparr>, \<lparr>Name = L ''beta.dll'', Size = 2048\<rparr>]
   \<and> calls_since example_os (snd (GetModuleListInProcess ample_heap 4242 example_os)) =
       [Call_CreateToolhelp32Snapshot TH32CS_SNAPMODULE 4242 (Handle 1),
        Call_Module32First (Handle 1), Call_Module32Next (Handle 1),
        Call_Module32Next (Handle 1), Call_CloseHandle (Handle 1)]
   \<and> fst (GetModuleListInProcess ample_heap 4 example_os) =
       Inl (Win32Error ''Unexpected termination of the module enumeration process.'' 5)
   \<and> filter is_open (calls_since example_os (snd (GetModuleListInProcess ample_heap 4 example_os))) =
       [Call_CreateToolhelp32Snapshot TH32CS_SNAPMODULE 4 (Handle 1)]
   \<and> filter is_close (calls_since example_os (snd (GetModuleListInProcess ample_heap 4 example_os))) =
       [Call_CloseHandle (Handle 1)]
   \<and> fst (GetModuleListInProcess tight_heap 4242 example_os) = Inl (std_exception ''bad allocation'')
   \<and> calls_since example_os (snd (GetModuleListInProcess tight_heap 4242 example_os)) =
       [Call_CreateToolhelp32Snapshot TH32CS_SNAPMODULE 4242 (Handle 1),
        Call_Module32First (Handle 1), Call_Module32Next (Handle 1), Call_CloseHandle (Handle 1)]
   \<and> open_snapshots (snd (GetModuleListInProcess tight_heap 4242 example_os)) = []"
proof -
  have created:
    "CreateToolhelp32Snapshot TH32CS_SNAPMODULE 4242 example_os =
       (Handle 1, snd (CreateToolhelp32Snapshot TH32CS_SNAPMODULE 4242 example_os))"
    "CreateToolhelp32Snapshot TH32CS_SNAPMODULE 4 example_os =
       (Handle 1, snd (CreateToolhelp32Snapshot TH32CS_SNAPMODULE 4 example_os))"
    by (simp_all add: CreateToolhelp32Snapshot_def example_os_def fresh_handle_def)
  have returned: "fst (GetModuleListInProcess ample_heap 4242 example_os) =
     Inr [\<lparr>Name = L ''alpha.dll'', Size = 1024\<rparr>, \<lparr>Name = L ''beta.dll'', Size = 2048\<rparr>]"
    and thrown: "fst (GetModuleListInProcess ample_heap 4 example_os) =
       Inl (Win32Error ''Unexpected termination of the module enumeration process.'' 5)"
    and propagated: "fst (GetModuleListInProcess tight_heap 4242 example_os) =
       Inl (std_exception ''bad allocation'')"
    by (simp_all add: run_defs)
  have calls_a: "calls_since example_os (snd (GetModuleListInProcess ample_heap 4242 example_os)) =
       [Call_CreateToolhelp32Snapshot TH32CS_SNAPMODULE 4242 (Handle 1),
        Call_Module32First (Handle 1), Call_Module32Next (Handle 1),
        Call_Module32Next (Handle 1), Call_CloseHandle (Handle 1)]"
    and calls_c: "calls_since example_os (snd (GetModuleListInProcess tight_heap 4242 example_os)) =
       [Call_CreateToolhelp32Snapshot TH32CS_SNAPMODULE 4242 (Handle 1),
        Call_Module32First (Handle 1), Call_Module32Next (Handle 1), Call_CloseHandle (Handle 1)]"
    by (simp_all add: run_defs)
  from handle_released_exactly_once [OF created(1), of ample_heap]
    handle_released_exactly_once [OF created(2), of ample_heap]
    handle_released_exactly_once [OF created(1), of tight_heap]
  show ?thesis
    unfolding returned thrown propagated calls_a calls_c
    by (simp add: Let_def example_os_def)
qed

text \<open>
  C3. If the system produces for the process a snapshot of N module entries whose
  enumeration ends with \<open>ERROR_NO_MORE_FILES\<close>, and no allocation fails while the N records
  are appended, then \<open>GetModuleListInProcess\<close> returns a list of N records, and the i-th
  record holds the name (the C string in \<open>szModule\<close>) and the \<open>modBaseSize\<close> of the i-th
  entry delivered.
\<close>

theorem modules_listed_in_order:
  assumes "processes os processID = Inr snap"
    and "end_error snap = ERROR_NO_MORE_FILES"
    and "\<forall>n < length (entries snap). heap n = None"
  shows "\<exists>moduleList. fst (GetModuleListInProcess heap processID os) = Inr moduleList \<and>
           length moduleList = length (entries snap) \<and>
           (\<forall>i < length (entries snap).
              Name (moduleList ! i) = wstring_of_cstr (szModule (entries snap ! i)) \<and>
              Size (moduleList ! i) = modBaseSize (entries snap ! i))"
proof -
  from assms(3) have "\<forall>i < length (entries snap). heap (length ([] :: ModuleInfo list) + i) = None"
    by simp
  from loop_without_throw [OF this]
  have "loop_outcome heap [] (entries snap) = Inr (map module_info (entries snap))"
    by simp
  then show ?thesis
    unfolding GetModuleListInProcess_snapshot [OF assms(1)]
    using assms(2) by (simp add: module_info_def ModuleInfo_ctor_def)
qed

theorem modules_listed_in_order_witness:
  "\<exists>moduleList. fst (GetModuleListInProcess ample_heap 4242 example_os) = Inr moduleList \<and>
     length moduleList = 2 \<and>
     Name (moduleList ! 0) = L ''alpha.dll'' \<and> Size (moduleList ! 0) = 1024 \<and>
     Name (moduleList ! 1) = L ''beta.dll'' \<and> Size (moduleList ! 1) = 2048"
proof -
  let ?snap = "\<lparr>entries = [alpha_dll, beta_dll], end_error = ERROR_NO_MORE_FILES\<rparr>"
  have "processes example_os 4242 = Inr ?snap"
    by (simp add: example_os_def)
  moreover have "end_error ?snap = ERROR_NO_MORE_FILES"
    by simp
  moreover have "\<forall>n < length (entries ?snap). ample_heap n = None"
    by (simp add: ample_heap_def)
  ultimately obtain moduleList
    where ret: "fst (GetModuleListInProcess ample_heap 4242 example_os) = Inr moduleList"
      and len: "length moduleList = length (entries ?snap)"
      and nth: "\<forall>i < length (entries ?snap).
              Name (moduleList ! i) = wstring_of_cstr (szModule (entries ?snap ! i)) \<and>
              Size (moduleList ! i) = modBaseSize (entries ?snap ! i)"
    using modules_listed_in_order [of example_os 4242 ?snap ample_heap] by blast
  from nth have "Name (moduleList ! 0) = wstring_of_cstr (szModule alpha_dll)"
    and "Size (moduleList ! 0) = modBaseSize alpha_dll"
    and "Name (moduleList ! 1) = wstring_of_cstr (szModule beta_dll)"
    and "Size (moduleList ! 1) = modBaseSize beta_dll"
    by simp_all
  with ret len show ?thesis
    by (simp add: alpha_dll_def beta_dll_def wstring_of_cstr_def L_def)
qed

text \<open>
  C4. If \<open>CreateToolhelp32Snapshot\<close> returns \<open>INVALID_HANDLE_VALUE\<close>, then
  \<open>GetModuleListInProcess\<close> throws a \<open>Win32Error\<close> with the message "Cannot init the
  module enumeration process (CreateToolhelp32Snapshot failed)." and the last-error code
  the system has set, which is the code it refuses the process with. No list is returned,
  and the function stops there: the only call made is the failed creation, and the state
  of the system at the exit is the state right after it.
\<close>

theorem snapshot_failure_is_thrown:
  assumes "CreateToolhelp32Snapshot TH32CS_SNAPMODULE processID os = (INVALID_HANDLE_VALUE, os1)"
  shows "GetModuleListInProcess heap processID os =
           (Inl (Win32Error
                   ''Cannot init the module enumeration process (CreateToolhelp32Snapshot failed).''
                   (GetLastError os1)),
            os1)
         \<and> processes os processID = Inl (GetLastError os1)
         \<and> calls_since os os1 =
             [Call_CreateToolhelp32Snapshot TH32CS_SNAPMODULE processID INVALID_HANDLE_VALUE]
         \<and> open_snapshots os1 = open_snapshots os"
proof -
  note failed = CreateToolhelp32Snapshot_failed [OF assms]
  have "calls_since os os1 =
      [Call_CreateToolhelp32Snapshot TH32CS_SNAPMODULE processID INVALID_HANDLE_VALUE]"
    and "open_snapshots os1 = open_snapshots os"
    by (subst failed(2), simp add: calls_since_def)+
  then show ?thesis
    using assms failed(1)
    by (simp add: GetModuleListInProcess_def ThrowLastWin32Error_def GetLastError_def)
qed

theorem snapshot_failure_is_thrown_witness:
  "GetModuleListInProcess tight_heap 1 example_os =
     (Inl (Win32Error
             ''Cannot init the module enumeration process (CreateToolhelp32Snapshot failed).'' 87),
      example_os\<lparr>last_error := 87,
                 calls := [Call_CreateToolhelp32Snapshot TH32CS_SNAPMODULE 1 INVALID_HANDLE_VALUE]\<rparr>)"
proof -
  have "CreateToolhelp32Snapshot TH32CS_SNAPMODULE 1 example_os =
      (INVALID_HANDLE_VALUE,
       example_os\<lparr>last_error := 87,
                  calls := [Call_CreateToolhelp32Snapshot TH32CS_SNAPMODULE 1 INVALID_HANDLE_VALUE]\<rparr>)"
    by (simp add: CreateToolhelp32Snapshot_def example_os_def log_call_def SetLastError_def)
  from snapshot_failure_is_thrown [OF this] show ?thesis
    by (simp add: GetLastError_def)
qed

text \<open>
  C5. If the snapshot of the process holds no module entry and the system reports
  \<open>ERROR_NO_MORE_FILES\<close> when the first entry is asked for, \<open>GetModuleListInProcess\<close>
  returns the empty list; nothing is thrown. It has called \<open>CreateToolhelp32Snapshot\<close>,
  \<open>Module32First\<close> and \<open>CloseHandle\<close>, in this order, and nothing else.
\<close>

theorem no_modules_is_success:
  assumes "processes os processID = Inr snap"
    and "entries snap = []"
    and "end_error snap = ERROR_NO_MORE_FILES"
  shows "fst (GetModuleListInProcess heap processID os) = Inr []
         \<and> calls_since os (snd (GetModuleListInProcess heap processID os)) =
             [Call_CreateToolhelp32Snapshot TH32CS_SNAPMODULE processID
                (Handle (fresh_handle (open_snapshots os))),
              Call_Module32First (Handle (fresh_handle (open_snapshots os))),
              Call_CloseHandle (Handle (fresh_handle (open_snapshots os)))]"
  unfolding GetModuleListInProcess_snapshot [OF assms(1)]
  using assms(2,3) by (simp add: calls_since_def)

theorem no_modules_is_success_witness:
  "fst (GetModuleListInProcess tight_heap 4294967295 example_os) = Inr []
   \<and> calls_since example_os (snd (GetModuleListInProcess tight_heap 4294967295 example_os)) =
       [Call_CreateToolhelp32Snapshot TH32CS_SNAPMODULE 4294967295 (Handle 1),
        Call_Module32First (Handle 1), Call_CloseHandle (Handle 1)]"
proof -
  let ?snap = "\<lparr>entries = [], end_error = ERROR_NO_MORE_FILES\<rparr>"
  have "processes example_os 4294967295 = Inr ?snap"
    by (simp add: example_os_def)
  from no_modules_is_success [OF this] show ?thesis
    by (simp add: example_os_def fresh_handle_def)
qed

text \<open>
  C9. \<open>GetModuleListInProcess\<close> keeps no state between calls. Its result depends only on
  what the system does for the process ID: in any two states of the system that agree on
  it the results are equal, and so are the results of two successive calls. Of the state
  of the system a call changes the last-error code and the record of calls, and nothing
  else: the process table and the handle table are after the call what they were before.
\<close>

theorem GetModuleListInProcess_keeps_no_state:
  "(\<forall>os'. processes os' processID = processes os processID \<longrightarrow>
      fst (GetModuleListInProcess heap processID os') = fst (GetModuleListInProcess heap processID os))
   \<and> fst (GetModuleListInProcess heap processID (snd (GetModuleListInProcess heap processID os))) =
       fst (GetModuleListInProcess heap processID os)
   \<and> snd (GetModuleListInProcess heap processID os) =
       os\<lparr>last_error := last_error (snd (GetModuleListInProcess heap processID os)),
          calls := calls (snd (GetModuleListInProcess heap processID os))\<rparr>
   \<and> processes (snd (GetModuleListInProcess heap processID os)) = processes os
   \<and> open_snapshots (snd (GetModuleListInProcess heap processID os)) = open_snapshots os"
proof (cases "processes os processID")
  case (Inl err)
  have "fst (GetModuleListInProcess heap processID os') = fst (GetModuleListInProcess heap processID os)"
    if "processes os' processID = processes os processID" for os'
    using that Inl
    by (simp add: GetModuleListInProcess_no_snapshot [where err = err])
  then show ?thesis
    using Inl by (simp add: GetModuleListInProcess_no_snapshot [where err = err])
next
  case (Inr snap)
  have "fst (GetModuleListInProcess heap processID os') = fst (GetModuleListInProcess heap processID os)"
    if "processes os' processID = processes os processID" for os'
    using that Inr
    by (simp add: GetModuleListInProcess_snapshot [where snap = snap])
  then show ?thesis
    using Inr by (simp add: GetModuleListInProcess_snapshot [where snap = snap])
qed

theorem GetModuleListInProcess_keeps_no_state_witness:
  "fst (GetModuleListInProcess ample_heap 4242 (snd (GetModuleListInProcess ample_heap 4 example_os))) =
     fst (GetModuleListInProcess ample_heap 4242 example_os)
   \<and> fst (GetModuleListInProcess ample_heap 4242 example_os) =
     Inr [\<lparr>Name = L ''alpha.dll'', Size = 1024\<rparr>, \<lparr>Name = L ''beta.dll'', Size = 2048\<rparr>]
   \<and> calls (snd (GetModuleListInProcess ample_heap 4 example_os)) \<noteq> calls example_os"
proof -
  have same: "processes (snd (GetModuleListInProcess ample_heap 4 example_os)) 4242 =
      processes example_os 4242"
    using GetModuleListInProcess_keeps_no_state [of 4 example_os ample_heap] by simp
  have "fst (GetModuleListInProcess ample_heap 4242 (snd (GetModuleListInProcess ample_heap 4 example_os))) =
     fst (GetModuleListInProcess ample_heap 4242 example_os)"
    using GetModuleListInProcess_keeps_no_state [of 4242 example_os ample_heap] same by blast
  moreover have "fst (GetModuleListInProcess ample_heap 4242 example_os) =
     Inr [\<lparr>Name = L ''alpha.dll'', Size = 1024\<rparr>, \<lparr>Name = L ''beta.dll'', Size = 2048\<rparr>]"
    and "calls (snd (GetModuleListInProcess ample_heap 4 example_os)) \<noteq> calls example_os"
    by (simp_all add: run_defs)
  ultimately show ?thesis by simp
qed


section \<open>Properties of wmain\<close>

text \<open>
  C6. What \<open>wmain\<close> returns and prints, case by case. With an argument count other than
  one, or an argument the parser refuses, it prints the banner and a line of guidance and
  returns 1. When \<open>GetModuleListInProcess\<close> throws a \<open>Win32Error\<close>, it prints the banner,
  "*** ERROR: " with the message of the exception, and the error code, and returns 1. When
  \<open>GetModuleListInProcess\<close> is left by another exception, it prints the banner and
  "*** ERROR: " with the \<open>what()\<close> of that exception, and returns 1. When the list is
  returned, it prints the banner and the list and returns 0. So the exit status is 0 on
  this last path and 1 on every other, and every failure is reported with its own
  description. The exceptions \<open>GetModuleListInProcess\<close> throws are the two \<open>Win32Error\<close>s
  of the source and the exceptions of the standard library that the loop body lets
  through; \<open>wmain\<close> catches each of them.
\<close>

theorem wmain_status_and_report:
  "wmain StrToInt64ExW heap argv os =
     (let banner = [Wide (L ''\<newline> *** Enumerate Modules in a Process *** \<newline>''),
                    Wide (L ''          by Giovanni Dicanio \<newline>\<newline>'')]
      in if length argv \<noteq> 2 then
           (1,
            banner @ [Wide (L ''Please pass the ID of the process to enumerate as the only parameter.\<newline>'')],
            os)
         else
           (case StrToInt64ExW (argv ! 1) STIF_DEFAULT of
              None \<Rightarrow>
                (1,
                 banner @ [Wide (L ''Please pass the ID of the process to enumerate as an integer in base 10.\<newline>'')],
                 os)
            | Some llResult \<Rightarrow>
                (case GetModuleListInProcess heap (static_cast_DWORD llResult) os of
                   (Inl (Win32Error errorMessage errorCode), os') \<Rightarrow>
                     (1,
                      banner @ [Wide (L ''*** ERROR: ''), Narrow errorMessage,
                                WideChar (of_nat (of_char CHR ''\<newline>'')),
                                Wide (L ''    (Error code: ''), Number errorCode,
                                Wide (L '')\<newline>'')],
                      os')
                 | (Inl (std_exception msg), os') \<Rightarrow>
                     (1,
                      banner @ [Wide (L ''*** ERROR: ''), Narrow msg,
                                WideChar (of_nat (of_char CHR ''\<newline>''))],
                      os')
                 | (Inr moduleList, os') \<Rightarrow>
                     (0,
                      print_module_list
                        (banner @
                           [Wide (L '' Module List for Process ID = ''),
                            Number (static_cast_DWORD llResult), Wide (L ''\<newline>''),
                            Wide (L '' ========================================\<newline>\<newline>'')])
                        moduleList,
                      os'))))
   \<and> fst (wmain StrToInt64ExW heap argv os) =
       (if length argv = 2 \<and>
           (\<exists>llResult moduleList.
              StrToInt64ExW (argv ! 1) STIF_DEFAULT = Some llResult \<and>
              fst (GetModuleListInProcess heap (static_cast_DWORD llResult) os) = Inr moduleList)
        then 0 else 1)
   \<and> (\<forall>processID e.
         fst (GetModuleListInProcess heap processID os) = Inl e \<longrightarrow>
           (\<exists>errorCode. e = Win32Error
               ''Cannot init the module enumeration process (CreateToolhelp32Snapshot failed).''
               errorCode)
         \<or> (\<exists>errorCode. e = Win32Error
               ''Unexpected termination of the module enumeration process.'' errorCode)
         \<or> (\<exists>n msg. heap n = Some msg \<and> e = std_exception msg))"
proof (intro conjI allI impI)
  fix processID e
  assume "fst (GetModuleListInProcess heap processID os) = Inl e"
  then show "(\<exists>errorCode. e = Win32Error
               ''Cannot init the module enumeration process (CreateToolhelp32Snapshot failed).''
               errorCode)
         \<or> (\<exists>errorCode. e = Win32Error
               ''Unexpected termination of the module enumeration process.'' errorCode)
         \<or> (\<exists>n msg. heap n = Some msg \<and> e = std_exception msg)"
    by (rule GetModuleListInProcess_throws)
next
  show "fst (wmain StrToInt64ExW heap argv os) =
       (if length argv = 2 \<and>
           (\<exists>llResult moduleList.
              StrToInt64ExW (argv ! 1) STIF_DEFAULT = Some llResult \<and>
              fst (GetModuleListInProcess heap (static_cast_DWORD llResult) os) = Inr moduleList)
        then 0 else 1)"
  proof (cases "length argv = 2")
    case False
    then show ?thesis
      by (simp add: wmain_def wmain_try_def kExitError_def)
  next
    case True
    show ?thesis
    proof (cases "StrToInt64ExW (argv ! 1) STIF_DEFAULT")
      case None
      with True show ?thesis
        by (simp add: wmain_def wmain_try_def kExitError_def)
    next
      case (Some llResult)
      obtain r os' where run: "GetModuleListInProcess heap (static_cast_DWORD llResult) os = (r, os')"
        by (cases "GetModuleListInProcess heap (static_cast_DWORD llResult) os")
      show ?thesis
      proof (cases r)
        case (Inl e)
        with True Some run show ?thesis
          by (cases e) (simp_all add: wmain_def wmain_try_def kExitError_def)
      next
        case (Inr moduleList)
        with True Some run show ?thesis
          by (simp add: wmain_def wmain_try_def kExitOk_def)
      qed
    qed
  qed
next
  show "wmain StrToInt64ExW heap argv os =
     (let banner = [Wide (L ''\<newline> *** Enumerate Modules in a Process *** \<newline>''),
                    Wide (L ''          by Giovanni Dicanio \<newline>\<newline>'')]
      in if length argv \<noteq> 2 then
           (1,
            banner @ [Wide (L ''Please pass the ID of the process to enumerate as the only parameter.\<newline>'')],
            os)
         else
           (case StrToInt64ExW (argv ! 1) STIF_DEFAULT of
              None \<Rightarrow>
                (1,
                 banner @ [Wide (L ''Please pass the ID of the process to enumerate as an integer in base 10.\<newline>'')],
                 os)
            | Some llResult \<Rightarrow>
                (case GetModuleListInProcess heap (static_cast_DWORD llResult) os of
                   (Inl (Win32Error errorMessage errorCode), os') \<Rightarrow>
                     (1,
                      banner @ [Wide (L ''*** ERROR: ''), Narrow errorMessage,
                                WideChar (of_nat (of_char CHR ''\<newline>'')),
                                Wide (L ''    (Error code: ''), Number errorCode,
                                Wide (L '')\<newline>'')],
                      os')
                 | (Inl (std_exception msg), os') \<Rightarrow>
                     (1,
                      banner @ [Wide (L ''*** ERROR: ''), Narrow msg,
                                WideChar (of_nat (of_char CHR ''\<newline>''))],
                      os')
                 | (Inr moduleList, os') \<Rightarrow>
                     (0,
                      print_module_list
                        (banner @
                           [Wide (L '' Module List for Process ID = ''),
                            Number (static_cast_DWORD llResult), Wide (L ''\<newline>''),
                            Wide (L '' ========================================\<newline>\<newline>'')])
                        moduleList,
                      os'))))"
  proof (cases "length argv = 2")
    case False
    then show ?thesis
      by (simp add: wmain_def wmain_try_def kExitError_def)
  next
    case True
    show ?thesis
    proof (cases "StrToInt64ExW (argv ! 1) STIF_DEFAULT")
      case None
      with True show ?thesis
        by (simp add: wmain_def wmain_try_def kExitError_def)
    next
      case (Some llResult)
      obtain r os' where run: "GetModuleListInProcess heap (static_cast_DWORD llResult) os = (r, os')"
        by (cases "GetModuleListInProcess heap (static_cast_DWORD llResult) os")
      show ?thesis
      proof (cases r)
        case (Inl e)
        with True Some run show ?thesis
          by (cases e) (simp_all add: wmain_def wmain_try_def kExitError_def)
      next
        case (Inr moduleList)
        with True Some run show ?thesis
          by (simp add: wmain_def wmain_try_def kExitOk_def)
      qed
    qed
  qed
qed


theorem wmain_status_and_report_witness:
  "wmain decimal_parser ample_heap [L ''ModuleList.exe'', L ''4242''] example_os =
     (0,
      [Wide (L ''\<newline> *** Enumerate Modules in a Process *** \<newline>''),
       Wide (L ''          by Giovanni Dicanio \<newline>\<newline>''),
       Wide (L '' Module List for Process ID = ''), Number 4242, Wide (L ''\<newline>''),
       Wide (L '' ========================================\<newline>\<newline>''),
       Wide (L '' - ''), Wide (L ''alpha.dll''), Wide (L ''  (''), Number 1024,
       Wide (L '' bytes)\<newline>''),
       Wide (L '' - ''), Wide (L ''beta.dll''), Wide (L ''  (''), Number 2048,
       Wide (L '' bytes)\<newline>'')],
      snd (GetModuleListInProcess ample_heap 4242 example_os))
   \<and> wmain decimal_parser ample_heap [L ''ModuleList.exe'', L ''1''] example_os =
     (1,
      [Wide (L ''\<newline> *** Enumerate Modules in a Process *** \<newline>''),
       Wide (L ''          by Giovanni Dicanio \<newline>\<newline>''),
       Wide (L ''*** ERROR: ''),
       Narrow ''Cannot init the module enumeration process (CreateToolhelp32Snapshot failed).'',
       WideChar 10, Wide (L ''    (Error code: ''), Number 87, Wide (L '')\<newline>'')],
      snd (GetModuleListInProcess ample_heap 1 example_os))
   \<and> wmain decimal_parser ample_heap [L ''ModuleList.exe'', L ''4''] example_os =
     (1,
      [Wide (L ''\<newline> *** Enumerate Modules in a Process *** \<newline>''),
       Wide (L ''          by Giovanni Dicanio \<newline>\<newline>''),
       Wide (L ''*** ERROR: ''),
       Narrow ''Unexpected termination of the module enumeration process.'',
       WideChar 10, Wide (L ''    (Error code: ''), Number 5, Wide (L '')\<newline>'')],
      snd (GetModuleListInProcess ample_heap 4 example_os))
   \<and> wmain decimal_parser tight_heap [L ''ModuleList.exe'', L ''4242''] example_os =
     (1,
      [Wide (L ''\<newline> *** Enumerate Modules in a Process *** \<newline>''),
       Wide (L ''          by Giovanni Dicanio \<newline>\<newline>''),
       Wide (L ''*** ERROR: ''), Narrow ''bad allocation'', WideChar 10],
      snd (GetModuleListInProcess tight_heap 4242 example_os))"
proof -
  have parsed: "decimal_parser (L ''4242'') STIF_DEFAULT = Some 4242"
    "decimal_parser (L ''1'') STIF_DEFAULT = Some 1"
    "decimal_parser (L ''4'') STIF_DEFAULT = Some 4"
    by (simp_all add: decimal_parser_def iswdigit_def L_def)
  have cast: "static_cast_DWORD 4242 = 4242" "static_cast_DWORD 1 = 1" "static_cast_DWORD 4 = 4"
    by (simp_all add: static_cast_DWORD_def)
  have listed: "GetModuleListInProcess ample_heap 4242 example_os =
      (Inr [\<lparr>Name = L ''alpha.dll'', Size = 1024\<rparr>, \<lparr>Name = L ''beta.dll'', Size = 2048\<rparr>],
       snd (GetModuleListInProcess ample_heap 4242 example_os))"
    and refused: "GetModuleListInProcess ample_heap 1 example_os =
      (Inl (Win32Error
             ''Cannot init the module enumeration process (CreateToolhelp32Snapshot failed).'' 87),
       snd (GetModuleListInProcess ample_heap 1 example_os))"
    and broken: "GetModuleListInProcess ample_heap 4 example_os =
      (Inl (Win32Error ''Unexpected termination of the module enumeration process.'' 5),
       snd (GetModuleListInProcess ample_heap 4 example_os))"
    and exhausted: "GetModuleListInProcess tight_heap 4242 example_os =
      (Inl (std_exception ''bad allocation''),
       snd (GetModuleListInProcess tight_heap 4242 example_os))"
    by (simp_all add: run_defs)
  note report = wmain_status_and_report [THEN conjunct1]
  have "wmain decimal_parser ample_heap [L ''ModuleList.exe'', L ''4242''] example_os =
     (0,
      [Wide (L ''\<newline> *** Enumerate Modules in a Process *** \<newline>''),
       Wide (L ''          by Giovanni Dicanio \<newline>\<newline>''),
       Wide (L '' Module List for Process ID = ''), Number 4242, Wide (L ''\<newline>''),
       Wide (L '' ========================================\<newline>\<newline>''),
       Wide (L '' - ''), Wide (L ''alpha.dll''), Wide (L ''  (''), Number 1024,
       Wide (L '' bytes)\<newline>''),
       Wide (L '' - ''), Wide (L ''beta.dll''), Wide (L ''  (''), Number 2048,
       Wide (L '' bytes)\<newline>'')],
      snd (GetModuleListInProcess ample_heap 4242 example_os))"
    apply (subst report)
    apply (simp add: parsed cast)
    apply (subst listed)
    apply (simp add: cast)
    done
  moreover
  have "wmain decimal_parser ample_heap [L ''ModuleList.exe'', L ''1''] example_os =
     (1,
      [Wide (L ''\<newline> *** Enumerate Modules in a Process *** \<newline>''),
       Wide (L ''          by Giovanni Dicanio \<newline>\<newline>''),
       Wide (L ''*** ERROR: ''),
       Narrow ''Cannot init the module enumeration process (CreateToolhelp32Snapshot failed).'',
       WideChar 10, Wide (L ''    (Error code: ''), Number 87, Wide (L '')\<newline>'')],
      snd (GetModuleListInProcess ample_heap 1 example_os))"
    apply (subst report)
    apply (simp add: parsed cast)
    apply (subst refused)
    apply simp
    done
  moreover
  have "wmain decimal_parser ample_heap [L ''ModuleList.exe'', L ''4''] example_os =
     (1,
      [Wide (L ''\<newline> *** Enumerate Modules in a Process *** \<newline>''),
       Wide (L ''          by Giovanni Dicanio \<newline>\<newline>''),
       Wide (L ''*** ERROR: ''),
       Narrow ''Unexpected termination of the module enumeration process.'',
       WideChar 10, Wide (L ''    (Error code: ''), Number 5, Wide (L '')\<newline>'')],
      snd (GetModuleListInProcess ample_heap 4 example_os))"
    apply (subst report)
    apply (simp add: parsed cast)
    apply (subst broken)
    apply simp
    done
  moreover
  have "wmain decimal_parser tight_heap [L ''ModuleList.exe'', L ''4242''] example_os =
     (1,
      [Wide (L ''\<newline> *** Enumerate Modules in a Process *** \<newline>''),
       Wide (L ''          by Giovanni Dicanio \<newline>\<newline>''),
       Wide (L ''*** ERROR: ''), Narrow ''bad allocation'', WideChar 10],
      snd (GetModuleListInProcess tight_heap 4242 example_os))"
    apply (subst report)
    apply (simp add: parsed cast)
    apply (subst exhausted)
    apply simp
    done
  ultimately show ?thesis by (intro conjI)
qed

text \<open>
  C7. If there is exactly one argument and \<open>StrToInt64ExW\<close> returns \<open>FALSE\<close> for it, \<open>wmain\<close>
  prints the banner and "Please pass the ID of the process to enumerate as an integer in
  base 10.", returns 1 and leaves the system as it was: no snapshot is requested, no call
  is made.
\<close>

theorem unparsable_argument_is_refused:
  assumes "length argv = 2"
    and "StrToInt64ExW (argv ! 1) STIF_DEFAULT = None"
  shows "wmain StrToInt64ExW heap argv os =
           (1,
            [Wide (L ''\<newline> *** Enumerate Modules in a Process *** \<newline>''),
             Wide (L ''          by Giovanni Dicanio \<newline>\<newline>''),
             Wide (L ''Please pass the ID of the process to enumerate as an integer in base 10.\<newline>'')],
            os)
         \<and> calls_since os (snd (snd (wmain StrToInt64ExW heap argv os))) = []"
  using assms by (simp add: wmain_def wmain_try_def kExitError_def calls_since_def)

theorem unparsable_argument_is_refused_witness:
  "decimal_parser (L ''abc'') STIF_DEFAULT = None
   \<and> wmain decimal_parser ample_heap [L ''ModuleList.exe'', L ''abc''] example_os =
       (1,
        [Wide (L ''\<newline> *** Enumerate Modules in a Process *** \<newline>''),
         Wide (L ''          by Giovanni Dicanio \<newline>\<newline>''),
         Wide (L ''Please pass the ID of the process to enumerate as an integer in base 10.\<newline>'')],
        example_os)"
proof -
  have unparsable: "decimal_parser (L ''abc'') STIF_DEFAULT = None"
    by (simp add: decimal_parser_def iswdigit_def L_def)
  with unparsable_argument_is_refused
      [of "[L ''ModuleList.exe'', L ''abc'']" decimal_parser ample_heap example_os]
  show ?thesis by simp
qed

text \<open>
  C8. If \<open>argc\<close> is not 2 (the program name alone, or the program name with two or more
  arguments), \<open>wmain\<close> prints the banner and "Please pass the ID of the process to enumerate
  as the only parameter.", returns 1 and leaves the system as it was: no snapshot is
  requested, no call is made.
\<close>

theorem wrong_argument_count_is_refused:
  assumes "length argv \<noteq> 2"
  shows "wmain StrToInt64ExW heap argv os =
           (1,
            [Wide (L ''\<newline> *** Enumerate Modules in a Process *** \<newline>''),
             Wide (L ''          by Giovanni Dicanio \<newline>\<newline>''),
             Wide (L ''Please pass the ID of the process to enumerate as the only parameter.\<newline>'')],
            os)
         \<and> calls_since os (snd (snd (wmain StrToInt64ExW heap argv os))) = []"
  using assms by (simp add: wmain_def wmain_try_def kExitError_def calls_since_def)

theorem wrong_argument_count_is_refused_witness:
  "wmain decimal_parser ample_heap [L ''ModuleList.exe''] example_os =
     (1,
      [Wide (L ''\<newline> *** Enumerate Modules in a Process *** \<newline>''),
       Wide (L ''          by Giovanni Dicanio \<newline>\<newline>''),
       Wide (L ''Please pass the ID of the process to enumerate as the only parameter.\<newline>'')],
      example_os)
   \<and> fst (wmain decimal_parser ample_heap [L ''ModuleList.exe'', L ''4242'', L ''4''] example_os) = 1
   \<and> snd (snd (wmain decimal_parser ample_heap [L ''ModuleList.exe'', L ''4242'', L ''4''] example_os)) =
       example_os"
  using wrong_argument_count_is_refused
      [of "[L ''ModuleList.exe'']" decimal_parser ample_heap example_os]
    wrong_argument_count_is_refused
      [of "[L ''ModuleList.exe'', L ''4242'', L ''4'']" decimal_parser ample_heap example_os]
  by simp

text \<open>
  C10. Whatever signed 64-bit value \<open>StrToInt64ExW\<close> stores for the argument, \<open>wmain\<close>
  goes on to the enumeration: no range check follows the parse. The process ID passed to
  \<open>CreateToolhelp32Snapshot\<close> is the value modulo \<open>2 ^ 32\<close>, and the exit status is decided
  by the enumeration alone. So -1 becomes the process ID 4294967295, and 4294971538
  becomes 4242.
\<close>

theorem process_id_is_truncated_argument:
  assumes "length argv = 2"
    and "StrToInt64ExW (argv ! 1) STIF_DEFAULT = Some llResult"
  shows "snd (snd (wmain StrToInt64ExW heap argv os)) =
           snd (GetModuleListInProcess heap (static_cast_DWORD llResult) os)
         \<and> (\<exists>h cs. calls_since os (snd (snd (wmain StrToInt64ExW heap argv os))) =
               Call_CreateToolhelp32Snapshot TH32CS_SNAPMODULE (static_cast_DWORD llResult) h # cs)
         \<and> uint (static_cast_DWORD llResult) = sint llResult mod 2 ^ 32
         \<and> fst (wmain StrToInt64ExW heap argv os) =
             (case fst (GetModuleListInProcess heap (static_cast_DWORD llResult) os) of
                Inl e \<Rightarrow> 1 | Inr moduleList \<Rightarrow> 0)"
proof -
  obtain r os' where run: "GetModuleListInProcess heap (static_cast_DWORD llResult) os = (r, os')"
    by (cases "GetModuleListInProcess heap (static_cast_DWORD llResult) os")
  have "snd (snd (wmain StrToInt64ExW heap argv os)) =
           snd (GetModuleListInProcess heap (static_cast_DWORD llResult) os)
      \<and> fst (wmain StrToInt64ExW heap argv os) =
             (case fst (GetModuleListInProcess heap (static_cast_DWORD llResult) os) of
                Inl e \<Rightarrow> 1 | Inr moduleList \<Rightarrow> 0)"
  proof (cases r)
    case (Inl e)
    with assms run show ?thesis
      by (cases e) (simp_all add: wmain_def wmain_try_def kExitError_def)
  next
    case (Inr moduleList)
    with assms run show ?thesis
      by (simp add: wmain_def wmain_try_def kExitOk_def)
  qed
  then have state: "snd (snd (wmain StrToInt64ExW heap argv os)) =
           snd (GetModuleListInProcess heap (static_cast_DWORD llResult) os)"
    and status: "fst (wmain StrToInt64ExW heap argv os) =
             (case fst (GetModuleListInProcess heap (static_cast_DWORD llResult) os) of
                Inl e \<Rightarrow> 1 | Inr moduleList \<Rightarrow> 0)"
    by simp_all
  from GetModuleListInProcess_first_call [of os heap "static_cast_DWORD llResult"]
  have "\<exists>h cs. calls_since os (snd (snd (wmain StrToInt64ExW heap argv os))) =
               Call_CreateToolhelp32Snapshot TH32CS_SNAPMODULE (static_cast_DWORD llResult) h # cs"
    unfolding state .
  with state status static_cast_DWORD_mod [of llResult] show ?thesis
    by blast
qed

theorem process_id_is_truncated_argument_witness:
  "decimal_parser (L ''-1'') STIF_DEFAULT = Some (- 1)
   \<and> static_cast_DWORD (- 1) = 4294967295
   \<and> calls (snd (snd (wmain decimal_parser ample_heap [L ''ModuleList.exe'', L ''-1''] example_os))) =
       [Call_CreateToolhelp32Snapshot TH32CS_SNAPMODULE 4294967295 (Handle 1),
        Call_Module32First (Handle 1), Call_CloseHandle (Handle 1)]
   \<and> fst (wmain decimal_parser ample_heap [L ''ModuleList.exe'', L ''-1''] example_os) = 0
   \<and> decimal_parser (L ''4294971538'') STIF_DEFAULT = Some 4294971538
   \<and> static_cast_DWORD 4294971538 = 4242
   \<and> hd (calls (snd (snd (wmain decimal_parser ample_heap
                              [L ''ModuleList.exe'', L ''4294971538''] example_os)))) =
       Call_CreateToolhelp32Snapshot TH32CS_SNAPMODULE 4242 (Handle 1)"
proof -
  have minus_one: "decimal_parser (L ''-1'') STIF_DEFAULT = Some (- 1)"
    and large: "decimal_parser (L ''4294971538'') STIF_DEFAULT = Some 4294971538"
    by (simp_all add: decimal_parser_def iswdigit_def L_def)
  note a = process_id_is_truncated_argument
      [of "[L ''ModuleList.exe'', L ''-1'']" decimal_parser "- 1" ample_heap example_os]
  note b = process_id_is_truncated_argument
      [of "[L ''ModuleList.exe'', L ''4294971538'']" decimal_parser 4294971538 ample_heap example_os]
  have cast_a: "static_cast_DWORD (- 1) = 4294967295"
    using a minus_one by (simp add: word_uint_eq_iff)
  have cast_b: "static_cast_DWORD 4294971538 = 4242"
    using b large by (simp add: word_uint_eq_iff)
  have run_a: "GetModuleListInProcess ample_heap 4294967295 example_os =
      (Inr [],
       example_os\<lparr>last_error := ERROR_NO_MORE_FILES,
                  calls := [Call_CreateToolhelp32Snapshot TH32CS_SNAPMODULE 4294967295 (Handle 1),
                            Call_Module32First (Handle 1), Call_CloseHandle (Handle 1)]\<rparr>)"
    by (simp add: run_defs)
  have run_b: "hd (calls (snd (GetModuleListInProcess ample_heap 4242 example_os))) =
      Call_CreateToolhelp32Snapshot TH32CS_SNAPMODULE 4242 (Handle 1)"
    by (simp add: run_defs)
  from a minus_one
  have "snd (snd (wmain decimal_parser ample_heap [L ''ModuleList.exe'', L ''-1''] example_os)) =
      snd (GetModuleListInProcess ample_heap 4294967295 example_os)"
    and "fst (wmain decimal_parser ample_heap [L ''ModuleList.exe'', L ''-1''] example_os) = 0"
    by (simp_all add: cast_a run_a)
  moreover from b large
  have "snd (snd (wmain decimal_parser ample_heap [L ''ModuleList.exe'', L ''4294971538''] example_os)) =
      snd (GetModuleListInProcess ample_heap 4242 example_os)"
    by (simp add: cast_b)
  ultimately show ?thesis
    using minus_one large cast_a cast_b by (simp add: run_a run_b)
qed

end
